theory Spec2Isabelle
  imports Complex_Main
begin

section \<open>Values of the tables\<close>

text \<open>
  The notebook \<open>notebooks/AnomalyDetection.ipynb\<close> works on pandas frames whose numeric
  cells are numpy \<open>float64\<close> scalars. A finite cell is taken as the real number it stands
  for (rounding and overflow are not modelled, and negative zero is identified with zero);
  the three non-finite values are kept, because numpy's scalar division does not raise on
  a zero divisor: it returns an infinity, or \<open>nan\<close> for \<open>0/0\<close>.
\<close>

datatype npfloat = Fin real | PInf | NInf | NaN

fun isfinite :: "npfloat \<Rightarrow> bool" where
  "isfinite (Fin x) = True"
| "isfinite PInf = False"
| "isfinite NInf = False"
| "isfinite NaN = False"

text \<open>Unary minus, \<open>-x\<close>.\<close>

fun np_neg :: "npfloat \<Rightarrow> npfloat" where
  "np_neg (Fin x) = Fin (- x)"
| "np_neg PInf = NInf"
| "np_neg NInf = PInf"
| "np_neg NaN = NaN"

text \<open>Addition, \<open>x + y\<close>.\<close>

fun np_add :: "npfloat \<Rightarrow> npfloat \<Rightarrow> npfloat" where
  "np_add NaN y = NaN"
| "np_add x NaN = NaN"
| "np_add (Fin x) (Fin y) = Fin (x + y)"
| "np_add PInf NInf = NaN"
| "np_add NInf PInf = NaN"
| "np_add PInf y = PInf"
| "np_add NInf y = NInf"
| "np_add (Fin x) PInf = PInf"
| "np_add (Fin x) NInf = NInf"

text \<open>Subtraction, \<open>x - y\<close>.\<close>

definition np_sub :: "npfloat \<Rightarrow> npfloat \<Rightarrow> npfloat" where
  "np_sub x y = np_add x (np_neg y)"

text \<open>
  Division, \<open>x / y\<close>. A zero divisor gives an infinity with the sign of the dividend, and
  \<open>nan\<close> when the dividend is zero too; numpy reports it with a warning, not an exception.
\<close>

fun np_div :: "npfloat \<Rightarrow> npfloat \<Rightarrow> npfloat" where
  "np_div NaN y = NaN"
| "np_div x NaN = NaN"
| "np_div (Fin x) (Fin y) =
     (if y \<noteq> 0 then Fin (x / y)
      else if 0 < x then PInf
      else if x < 0 then NInf
      else NaN)"
| "np_div (Fin x) PInf = Fin 0"
| "np_div (Fin x) NInf = Fin 0"
| "np_div PInf (Fin y) = (if 0 \<le> y then PInf else NInf)"
| "np_div NInf (Fin y) = (if 0 \<le> y then NInf else PInf)"
| "np_div PInf PInf = NaN"
| "np_div PInf NInf = NaN"
| "np_div NInf PInf = NaN"
| "np_div NInf NInf = NaN"

text \<open>The comparisons \<open>x > y\<close> and \<open>x <= y\<close>; both are false as soon as one side is \<open>nan\<close>.\<close>

fun np_gt :: "npfloat \<Rightarrow> npfloat \<Rightarrow> bool" where
  "np_gt NaN y = False"
| "np_gt x NaN = False"
| "np_gt (Fin x) (Fin y) = (y < x)"
| "np_gt PInf PInf = False"
| "np_gt PInf y = True"
| "np_gt NInf y = False"
| "np_gt (Fin x) PInf = False"
| "np_gt (Fin x) NInf = True"

fun np_le :: "npfloat \<Rightarrow> npfloat \<Rightarrow> bool" where
  "np_le NaN y = False"
| "np_le x NaN = False"
| "np_le (Fin x) (Fin y) = (x \<le> y)"
| "np_le NInf y = True"
| "np_le PInf PInf = True"
| "np_le PInf y = False"
| "np_le (Fin x) PInf = True"
| "np_le (Fin x) NInf = False"

type_synonym timestamp = int

section \<open>Deviation Scorer\<close>

text \<open>
  The corridor at native resolution, after the columns \<open>0.1\<close> and \<open>0.9\<close> have been renamed
  to \<open>floor\<close> and \<open>hat\<close>: one row per timestamp of the index.
\<close>

record corridor_row =
  timestamp :: timestamp
  mean :: npfloat
  floor_col :: npfloat
  hat :: npfloat

text \<open>The same row joined with the observation of that timestamp, column \<open>actual\<close>.\<close>

record joined_row = corridor_row +
  actual :: npfloat

text \<open>
  The row of the final table. The lambda returns \<open>None\<close> when neither bound is breached;
  the column \<open>deviation\<close> keeps that as a missing cell.
\<close>

record deviation_row = joined_row +
  deviation :: "npfloat option"

text \<open>
  \<open>pd.merge(left, right, left_index=True, right_index=True, how='inner')\<close>: the rows of
  \<open>left\<close>, in their order, each paired with every row of \<open>right\<close> that carries the same
  index label; a label missing on either side yields no row.
\<close>

definition merge_inner :: "('k \<times> 'a) list \<Rightarrow> ('k \<times> 'b) list \<Rightarrow> ('k \<times> 'a \<times> 'b) list" where
  "merge_inner left right =
     concat (map (\<lambda>(k, a). map (\<lambda>(k', b). (k, a, b)) (filter (\<lambda>(k', b). k' = k) right)) left)"

text \<open>
  The lambda of \<open>merged.apply(..., axis = 1)\<close>:
  \<^verbatim>\<open>(-x['floor'] / x['actual']) + 1 if x['floor'] > x['actual']
    else (x['actual']/x['hat']) - 1 if x['actual'] > x['hat']
    else None\<close>
\<close>

definition deviation_of :: "'a joined_row_scheme \<Rightarrow> npfloat option" where
  "deviation_of x =
     (if np_gt (floor_col x) (actual x)
        then Some (np_add (np_div (np_neg (floor_col x)) (actual x)) (Fin 1))
      else if np_gt (actual x) (hat x)
        then Some (np_sub (np_div (actual x) (hat x)) (Fin 1))
      else None)"

text \<open>\<open>merged['deviation'] = merged.apply(..., axis = 1)\<close>: the new column, row by row.\<close>

definition add_deviation :: "joined_row list \<Rightarrow> deviation_row list" where
  "add_deviation rows =
     map (\<lambda>x. \<lparr>timestamp = timestamp x, mean = mean x, floor_col = floor_col x, hat = hat x,
               actual = actual x, deviation = deviation_of x\<rparr>) rows"

text \<open>
  The join of the upsampled corridor with \<open>df[['value']]\<close> on the index, the rename of
  \<open>value\<close> to \<open>actual\<close>, and the new column: lines 163 to 172 of the notebook.
\<close>

definition join_actual :: "corridor_row list \<Rightarrow> (timestamp \<times> npfloat) list \<Rightarrow> joined_row list" where
  "join_actual upsampled values =
     map (\<lambda>(t, c, v). \<lparr>timestamp = t, mean = mean c, floor_col = floor_col c, hat = hat c,
                        actual = v\<rparr>)
       (merge_inner (map (\<lambda>c. (timestamp c, c)) upsampled) values)"

definition deviation_scorer ::
  "corridor_row list \<Rightarrow> (timestamp \<times> npfloat) list \<Rightarrow> deviation_row list" where
  "deviation_scorer upsampled values = add_deviation (join_actual upsampled values)"

section \<open>Forecast Requester and Corridor Merger\<close>

text \<open>
  A row of the frame returned by \<open>predictor.predict\<close>: the index is the pair
  \<open>(item_id, timestamp)\<close>, the columns are the point forecast \<open>mean\<close> and one column per
  requested quantile level, \<open>0.1\<close>, \<open>0.5\<close> and \<open>0.9\<close>.
\<close>

record forecast_row =
  f_item_id :: string
  f_timestamp :: timestamp
  f_mean :: npfloat
  f_q01 :: npfloat
  f_q05 :: npfloat
  f_q09 :: npfloat

text \<open>\<open>forecast[[c]]\<close>: the index and the single column \<open>c\<close>.\<close>

definition select_column ::
  "(forecast_row \<Rightarrow> npfloat) \<Rightarrow> forecast_row list \<Rightarrow> ((string \<times> timestamp) \<times> npfloat) list" where
  "select_column c forecast = map (\<lambda>r. ((f_item_id r, f_timestamp r), c r)) forecast"

text \<open>
  A row of \<open>merged\<close> after \<open>reset_index().set_index('timestamp').drop(['item_id'], axis=1)\<close>:
  indexed by the timestamp alone, with the columns \<open>mean\<close>, \<open>0.1\<close> and \<open>0.9\<close>.
\<close>

record merged_row =
  m_timestamp :: timestamp
  m_mean :: npfloat
  m_q01 :: npfloat
  m_q09 :: npfloat

text \<open>The two merges of lines 150 to 156 and the re-indexing of lines 158 and 159.\<close>

definition corridor_merge ::
  "forecast_row list \<Rightarrow> forecast_row list \<Rightarrow> forecast_row list \<Rightarrow> merged_row list" where
  "corridor_merge forecastMean forecastMin forecastMax =
     (let merged = merge_inner (select_column f_mean forecastMean) (select_column f_q01 forecastMin);
          merged = merge_inner merged (select_column f_q09 forecastMax)
      in map (\<lambda>((item, t), (m, lo), hi).
                \<lparr>m_timestamp = t, m_mean = m, m_q01 = lo, m_q09 = hi\<rparr>) merged)"

text \<open>\<open>rename(columns={'0.1': 'floor', '0.9': 'hat'})\<close>.\<close>

definition rename_columns :: "merged_row list \<Rightarrow> corridor_row list" where
  "rename_columns rows =
     map (\<lambda>r. \<lparr>timestamp = m_timestamp r, mean = m_mean r, floor_col = m_q01 r, hat = m_q09 r\<rparr>)
       rows"

section \<open>The input frame and its validation\<close>

text \<open>
  A pandas \<open>DataFrame\<close> as the entry point sees it: the kind of its index, the index
  labels (nanoseconds since the epoch when the index is a \<open>DatetimeIndex\<close>), and the
  columns in order, each with the cells of one dtype. \<open>Numeric\<close> stands for every dtype that
  \<open>pd.api.types.is_numeric_dtype\<close> accepts.
\<close>

datatype column_data =
    Numeric "npfloat list"
  | NonNumeric "string list"
  | Datetimes "timestamp list"

datatype index_kind = DatetimeIndex | OtherIndex

record dataframe =
  index_kind :: index_kind
  index :: "timestamp list"
  columns :: "(string \<times> column_data) list"

fun is_numeric_dtype :: "column_data \<Rightarrow> bool" where
  "is_numeric_dtype (Numeric vs) = True"
| "is_numeric_dtype (NonNumeric vs) = False"
| "is_numeric_dtype (Datetimes vs) = False"

text \<open>\<open>df.empty\<close>: one of the two axes has length zero.\<close>

definition df_empty :: "dataframe \<Rightarrow> bool" where
  "df_empty df \<longleftrightarrow> index df = [] \<or> columns df = []"

text \<open>\<open>is_numeric_dtype(df['value'])\<close>, for a frame that has the column.\<close>

definition value_is_numeric :: "dataframe \<Rightarrow> bool" where
  "value_is_numeric df =
     (case map_of (columns df) ''value'' of Some c \<Rightarrow> is_numeric_dtype c | None \<Rightarrow> False)"

text \<open>
  The four \<open>ValueError\<close>s that the entry point raises itself, and the other ways a call can
  fail. \<open>JoinValueError\<close> is the \<open>ValueError\<close> that \<open>pd.merge\<close> raises when it cannot align the
  two indexes (\<open>cannot join with no overlapping index names\<close>).
\<close>

datatype validation_failure = MissingColumn | EmptyFrame | NotNumeric | NoDatetimeIndex

datatype error =
    ValueError validation_failure
  | JoinValueError
  | AttributeError
  | PredictorError string

definition required_column :: "string list" where
  "required_column = [''value'']"

text \<open>Lines 112 to 127: the checks in the order of the source; \<open>None\<close> when all pass.\<close>

definition validate :: "dataframe \<Rightarrow> error option" where
  "validate df =
     (if \<not> list_all (\<lambda>col. col \<in> set (map fst (columns df))) required_column
        then Some (ValueError MissingColumn)
      else if df_empty df
        then Some (ValueError EmptyFrame)
      else if \<not> value_is_numeric df
        then Some (ValueError NotNumeric)
      else if index_kind df \<noteq> DatetimeIndex
        then Some (ValueError NoDatetimeIndex)
      else None)"

text \<open>\<open>int(x)\<close> on a float: truncation towards zero.\<close>

definition py_int :: "real \<Rightarrow> int" where
  "py_int x = (if 0 \<le> x then \<lfloor>x\<rfloor> else \<lceil>x\<rceil>)"

text \<open>
  \<open>get_minutes_between_dates\<close>, on the two bounds already parsed by \<open>pd.Timestamp\<close>;
  \<open>total_seconds\<close> of a difference of nanoseconds.
\<close>

definition total_seconds :: "int \<Rightarrow> real" where
  "total_seconds d = real_of_int d / 10 ^ 9"

definition get_minutes_between_dates :: "timestamp \<Rightarrow> timestamp \<Rightarrow> int" where
  "get_minutes_between_dates from_time to_time =
     (let minutes = total_seconds (to_time - from_time) / 60 in py_int minutes)"

text \<open>\<open>df[mask]\<close>: the rows whose mask entry is true, in every column.\<close>

definition keep :: "bool list \<Rightarrow> 'a list \<Rightarrow> 'a list" where
  "keep sel xs = map snd (filter fst (zip sel xs))"

fun keep_cells :: "bool list \<Rightarrow> column_data \<Rightarrow> column_data" where
  "keep_cells sel (Numeric vs) = Numeric (keep sel vs)"
| "keep_cells sel (NonNumeric vs) = NonNumeric (keep sel vs)"
| "keep_cells sel (Datetimes vs) = Datetimes (keep sel vs)"

definition select_rows :: "bool list \<Rightarrow> dataframe \<Rightarrow> dataframe" where
  "select_rows sel df =
     df\<lparr>index := keep sel (index df),
        columns := map (\<lambda>(name, c). (name, keep_cells sel c)) (columns df)\<rparr>"

text \<open>\<open>df[name] = cells\<close>: replaces the column of that name, or appends a new one.\<close>

definition set_column :: "string \<Rightarrow> column_data \<Rightarrow> dataframe \<Rightarrow> dataframe" where
  "set_column name cells df =
     (if name \<in> set (map fst (columns df))
        then df\<lparr>columns := map (\<lambda>(n, c). if n = name then (n, cells) else (n, c)) (columns df)\<rparr>
      else df\<lparr>columns := columns df @ [(name, cells)]\<rparr>)"

text \<open>
  \<open>d['timestamp'] = d.index\<close> followed by \<open>d['item_id'] = 'single_item'\<close>, as done for
  each of the three summaries.
\<close>

definition label_single_item :: "dataframe \<Rightarrow> dataframe" where
  "label_single_item d =
     set_column ''item_id'' (NonNumeric (replicate (length (index d)) ''single_item''))
       (set_column ''timestamp'' (Datetimes (index d)) d)"

text \<open>\<open>df[['value']]\<close> of a validated frame: the index with the cells of the column.\<close>

definition value_column :: "dataframe \<Rightarrow> (timestamp \<times> npfloat) list" where
  "value_column df =
     (case map_of (columns df) ''value'' of
        Some (Numeric vs) \<Rightarrow> zip (index df) vs
      | _ \<Rightarrow> [])"

section \<open>The library capabilities\<close>

text \<open>
  Three operations are consumed as they are and are parameters of the pipeline: the
  aggregation \<open>d.resample(f'{n}min').mean()\<close> (or \<open>min\<close>, \<open>max\<close>), the predictor
  \<open>TimeSeriesPredictor(...).fit(...).predict(...)\<close>, which may raise, and the upsampling
  \<open>resample('1min').interpolate(method='time')\<close>.
\<close>

datatype aggregation = AggMean | AggMin | AggMax

record predictor_config =
  prediction_length :: int
  quantile_levels :: "real list"
  target :: string
  verbosity :: int
  presets :: string

record library =
  resample_agg :: "nat \<Rightarrow> aggregation \<Rightarrow> dataframe \<Rightarrow> dataframe"
  fit_predict :: "predictor_config \<Rightarrow> dataframe \<Rightarrow> error + forecast_row list"
  resample_interpolate :: "merged_row list \<Rightarrow> merged_row list"

text \<open>\<open>generate_forecast(df, prediction_length, verbosity=0)\<close>, lines 57 to 71.\<close>

definition generate_forecast ::
  "library \<Rightarrow> dataframe \<Rightarrow> int \<Rightarrow> error + forecast_row list" where
  "generate_forecast lib df n =
     fit_predict lib
       \<lparr>prediction_length = n, quantile_levels = [0.1, 0.5, 0.9], target = ''value'',
        verbosity = 0, presets = ''bolt_tiny''\<rparr> df"

section \<open>Result Container\<close>

text \<open>
  Frames and numpy arrays are objects: a variable holds a reference, and two references to
  one object see each other's writes. The store is the list of the objects allocated so
  far; a reference is a position in it, and a reference outside the store stands for
  \<open>None\<close>. An object of the store has its content and the flag \<open>writeable\<close>: for an array
  the flag \<open>flags.writeable\<close> of that array, for a frame the flag of the arrays in which the
  frame keeps its cells. The content of an array names the frame whose cells it presents.
\<close>

type_synonym ref = nat

datatype pyobj = RawFrame dataframe | ForecastFrame "deviation_row list" | NdArray ref

record stored =
  content :: pyobj
  writeable :: bool

type_synonym heap = "stored list"

definition lookup :: "heap \<Rightarrow> ref \<Rightarrow> pyobj option" where
  "lookup h p = (if p < length h then Some (content (h ! p)) else None)"

text \<open>A new object; its arrays are new as well, hence writeable.\<close>

definition alloc :: "heap \<Rightarrow> pyobj \<Rightarrow> ref \<times> heap" where
  "alloc h v = (length h, h @ [\<lparr>content = v, writeable = True\<rparr>])"

text \<open>
  \<open>obj.copy()\<close>: a new object with a copy of the data and of the index of \<open>obj\<close>; on
  \<open>None\<close> the attribute is missing.
\<close>

definition copy :: "heap \<Rightarrow> ref \<Rightarrow> error + ref \<times> heap" where
  "copy h p = (case lookup h p of None \<Rightarrow> Inl AttributeError | Some v \<Rightarrow> Inr (alloc h v))"

text \<open>
  \<open>frame.values\<close>: the numpy representation of the frame. Every access builds a new array
  object (pandas hands out a transposed view of the block, or a merged copy of several
  blocks), never the array in which the frame keeps its cells. \<open>None\<close> and arrays have no
  such attribute.
\<close>

definition frame_values :: "heap \<Rightarrow> ref \<Rightarrow> error + ref \<times> heap" where
  "frame_values h p =
     (case lookup h p of
        None \<Rightarrow> Inl AttributeError
      | Some (NdArray r) \<Rightarrow> Inl AttributeError
      | Some (RawFrame df) \<Rightarrow> Inr (alloc h (NdArray p))
      | Some (ForecastFrame t) \<Rightarrow> Inr (alloc h (NdArray p)))"

fun is_frame :: "pyobj \<Rightarrow> bool" where
  "is_frame (RawFrame df) = True"
| "is_frame (ForecastFrame t) = True"
| "is_frame (NdArray r) = False"

text \<open>\<open>arr.flags.writeable = False\<close>: the flag of that one array object.\<close>

definition clear_writeable :: "heap \<Rightarrow> ref \<Rightarrow> heap" where
  "clear_writeable h a = h[a := (h ! a)\<lparr>writeable := False\<rparr>]"

record AnomalyResult =
  priv_forecast :: ref
  priv_actual :: ref

text \<open>
  \<open>AnomalyResult.__init__\<close>, lines 34 to 38: the field \<open>_forecast\<close> is the argument itself,
  the field \<open>_actual\<close> a copy of the argument; then the flag is cleared on the array that
  \<open>self._forecast.values\<close> returns and on the array that \<open>self._actual.values\<close> returns.
\<close>

definition AnomalyResult_init :: "ref \<Rightarrow> ref \<Rightarrow> heap \<Rightarrow> error + AnomalyResult \<times> heap" where
  "AnomalyResult_init forecast_data actual_data h =
     (case copy h actual_data of
        Inl e \<Rightarrow> Inl e
      | Inr (a, h1) \<Rightarrow>
          (case frame_values h1 forecast_data of
             Inl e \<Rightarrow> Inl e
           | Inr (v1, h2) \<Rightarrow>
               (case frame_values (clear_writeable h2 v1) a of
                  Inl e \<Rightarrow> Inl e
                | Inr (v2, h3) \<Rightarrow>
                    Inr (\<lparr>priv_forecast = forecast_data, priv_actual = a\<rparr>,
                         clear_writeable h3 v2))))"

text \<open>The properties \<open>forecast\<close> and \<open>actual\<close>: \<open>return self._forecast.copy()\<close>.\<close>

definition AnomalyResult_forecast :: "AnomalyResult \<Rightarrow> heap \<Rightarrow> error + ref \<times> heap" where
  "AnomalyResult_forecast self h = copy h (priv_forecast self)"

definition AnomalyResult_actual :: "AnomalyResult \<Rightarrow> heap \<Rightarrow> error + ref \<times> heap" where
  "AnomalyResult_actual self h = copy h (priv_actual self)"

section \<open>The entry point\<close>

text \<open>The calls into the library, in the order in which a run makes them.\<close>

datatype call = Resample aggregation | FitPredict | Interpolate

text \<open>
  Lines 150 to 174: the merger, the upsampling and the rename, the scorer, and the
  construction of the result from the new frame \<open>merged\<close> and the caller's \<open>df\<close>. When the
  corridor has no row, the frame that lines 158 to 161 make of it has no index that pandas
  can align with the \<open>DatetimeIndex\<close> of \<open>df\<close>, and the merge of lines 163 to 166 raises.
\<close>

definition assemble ::
  "library \<Rightarrow> heap \<Rightarrow> ref \<Rightarrow> dataframe \<Rightarrow> forecast_row list \<Rightarrow> forecast_row list
     \<Rightarrow> forecast_row list \<Rightarrow> error + AnomalyResult \<times> heap" where
  "assemble lib h df_ref df forecastMean forecastMin forecastMax =
     (let corridor = corridor_merge forecastMean forecastMin forecastMax;
          merged = rename_columns (resample_interpolate lib corridor)
      in if corridor = [] then Inl JoinValueError
         else
           (let merged = deviation_scorer merged (value_column df);
                (merged_ref, h') = alloc h (ForecastFrame merged)
            in AnomalyResult_init merged_ref df_ref h'))"

text \<open>
  \<open>get_anomaly_summary(df, fromTime, toTime)\<close>. The result comes with the list of the
  library calls made before it returned or raised.
\<close>

definition get_anomaly_summary ::
  "library \<Rightarrow> heap \<Rightarrow> ref \<Rightarrow> timestamp \<Rightarrow> timestamp
     \<Rightarrow> call list \<times> (error + AnomalyResult \<times> heap)" where
  "get_anomaly_summary lib h df_ref fromTime toTime =
     (case lookup h df_ref of
        None \<Rightarrow> ([], Inl AttributeError)
      | Some (NdArray r) \<Rightarrow> ([], Inl AttributeError)
      | Some (ForecastFrame t) \<Rightarrow> ([], Inl (ValueError MissingColumn))
      | Some (RawFrame df) \<Rightarrow>
          (case validate df of
             Some e \<Rightarrow> ([], Inl e)
           | None \<Rightarrow>
               (let interval_length = 30;
                    prediction_steps = get_minutes_between_dates fromTime toTime;
                    prediction_intervals =
                      py_int (real_of_int prediction_steps / real interval_length);
                    dfHistoricalData = select_rows (map (\<lambda>t. t < fromTime) (index df)) df;
                    dfMean = label_single_item (resample_agg lib interval_length AggMean dfHistoricalData);
                    dfMin = label_single_item (resample_agg lib interval_length AggMin dfHistoricalData);
                    dfMax = label_single_item (resample_agg lib interval_length AggMax dfHistoricalData);
                    aggregated = [Resample AggMean, Resample AggMin, Resample AggMax]
                in case generate_forecast lib dfMean prediction_intervals of
                     Inl e \<Rightarrow> (aggregated @ [FitPredict], Inl e)
                   | Inr forecastMean \<Rightarrow>
                 (case generate_forecast lib dfMin prediction_intervals of
                     Inl e \<Rightarrow> (aggregated @ [FitPredict, FitPredict], Inl e)
                   | Inr forecastMin \<Rightarrow>
                 (case generate_forecast lib dfMax prediction_intervals of
                     Inl e \<Rightarrow> (aggregated @ [FitPredict, FitPredict, FitPredict], Inl e)
                   | Inr forecastMax \<Rightarrow>
                       (aggregated @ [FitPredict, FitPredict, FitPredict, Interpolate],
                        assemble lib h df_ref df forecastMean forecastMin forecastMax))))))"

section \<open>Properties of the arithmetic\<close>

lemma np_le_not_gt: "np_le x y \<Longrightarrow> \<not> np_gt x y"
  by (cases x; cases y; simp)

lemma floor_breach_formula:
  "np_add (np_div (np_neg f) a) (Fin 1) = np_sub (Fin 1) (np_div f a)"
  by (cases f; cases a; simp add: np_sub_def)

lemma ceiling_breach_positive:
  assumes "np_gt a h" and "np_gt h (Fin 0)"
  shows "np_gt (np_sub (np_div a h) (Fin 1)) (Fin 0)"
proof (cases h)
  case (Fin c)
  with assms(2) have c: "0 < c" by simp
  show ?thesis
  proof (cases a)
    case (Fin b)
    with assms(1) \<open>h = Fin c\<close> have "c < b" by simp
    with c have "1 < b / c" by simp
    with c Fin \<open>h = Fin c\<close> show ?thesis by (simp add: np_sub_def)
  next
    case PInf
    with c \<open>h = Fin c\<close> show ?thesis by (simp add: np_sub_def)
  next
    case NInf
    with assms(1) \<open>h = Fin c\<close> show ?thesis by simp
  next
    case NaN
    with assms(1) \<open>h = Fin c\<close> show ?thesis by simp
  qed
next
  case PInf
  with assms(1) show ?thesis by (cases a; simp)
next
  case NInf
  with assms(2) show ?thesis by simp
next
  case NaN
  with assms(2) show ?thesis by simp
qed

lemma deviation_scorer_rows:
  "r \<in> set (deviation_scorer upsampled values) \<Longrightarrow> deviation r = deviation_of r"
  by (auto simp: deviation_scorer_def add_deviation_def deviation_of_def)

section \<open>Deviation formulas\<close>

text \<open>
  C1 (amended). For every row of the table produced by the Deviation Scorer: when
  \<open>floor > actual\<close> the deviation is \<open>1 - floor/actual\<close>; when \<open>actual > hat\<close> and the floor is
  not breached, the deviation is \<open>actual/hat - 1\<close>, and that value is strictly positive when
  \<open>hat > 0\<close>. The ceiling formula is reached only after the floor test has failed.
\<close>

theorem breach_formulas:
  assumes "r \<in> set (deviation_scorer upsampled values)"
  shows "(np_gt (floor_col r) (actual r) \<longrightarrow>
            deviation r = Some (np_sub (Fin 1) (np_div (floor_col r) (actual r))))
       \<and> (\<not> np_gt (floor_col r) (actual r) \<and> np_gt (actual r) (hat r) \<longrightarrow>
            deviation r = Some (np_sub (np_div (actual r) (hat r)) (Fin 1))
          \<and> (np_gt (hat r) (Fin 0) \<longrightarrow>
               np_gt (np_sub (np_div (actual r) (hat r)) (Fin 1)) (Fin 0)))"
proof -
  have d: "deviation r = deviation_of r"
    using assms by (rule deviation_scorer_rows)
  show ?thesis
    by (simp add: d deviation_of_def floor_breach_formula ceiling_breach_positive)
qed

text \<open>
  Two rows at once: at timestamp 1 the observation 50 is above the ceiling 20 and scores
  \<open>50/20 - 1 = 3/2\<close>; at timestamp 2 the observation 5 is below the floor 10 and scores
  \<open>1 - 10/5 = -1\<close>.
\<close>

theorem breach_formulas_witness:
  "\<lparr>timestamp = 1, mean = Fin 15, floor_col = Fin 10, hat = Fin 20, actual = Fin 50,
     deviation = Some (Fin (3 / 2))\<rparr>
     \<in> set (deviation_scorer
         [\<lparr>timestamp = 1, mean = Fin 15, floor_col = Fin 10, hat = Fin 20\<rparr>,
          \<lparr>timestamp = 2, mean = Fin 15, floor_col = Fin 10, hat = Fin 20\<rparr>]
         [(1, Fin 50), (2, Fin 5)])
   \<and> \<not> np_gt (Fin 10) (Fin 50) \<and> np_gt (Fin 50) (Fin 20) \<and> np_gt (Fin 20) (Fin 0)
   \<and> Some (Fin (3 / 2)) = Some (np_sub (np_div (Fin 50) (Fin 20)) (Fin 1))
   \<and> np_gt (np_sub (np_div (Fin 50) (Fin 20)) (Fin 1)) (Fin 0)
   \<and> \<lparr>timestamp = 2, mean = Fin 15, floor_col = Fin 10, hat = Fin 20, actual = Fin 5,
       deviation = Some (Fin (- 1))\<rparr>
     \<in> set (deviation_scorer
         [\<lparr>timestamp = 1, mean = Fin 15, floor_col = Fin 10, hat = Fin 20\<rparr>,
          \<lparr>timestamp = 2, mean = Fin 15, floor_col = Fin 10, hat = Fin 20\<rparr>]
         [(1, Fin 50), (2, Fin 5)])
   \<and> np_gt (Fin 10) (Fin 5)
   \<and> Some (Fin (- 1)) = Some (np_sub (Fin 1) (np_div (Fin 10) (Fin 5)))"
  using breach_formulas [of
      "\<lparr>timestamp = 1, mean = Fin 15, floor_col = Fin 10, hat = Fin 20, actual = Fin 50,
        deviation = Some (Fin (3 / 2))\<rparr>"
      "[\<lparr>timestamp = 1, mean = Fin 15, floor_col = Fin 10, hat = Fin 20\<rparr>,
        \<lparr>timestamp = 2, mean = Fin 15, floor_col = Fin 10, hat = Fin 20\<rparr>]"
      "[(1, Fin 50), (2, Fin 5)]"]
    breach_formulas [of
      "\<lparr>timestamp = 2, mean = Fin 15, floor_col = Fin 10, hat = Fin 20, actual = Fin 5,
        deviation = Some (Fin (- 1))\<rparr>"
      "[\<lparr>timestamp = 1, mean = Fin 15, floor_col = Fin 10, hat = Fin 20\<rparr>,
        \<lparr>timestamp = 2, mean = Fin 15, floor_col = Fin 10, hat = Fin 20\<rparr>]"
      "[(1, Fin 50), (2, Fin 5)]"]
  by (simp add: deviation_scorer_def add_deviation_def join_actual_def merge_inner_def
      deviation_of_def np_sub_def)

text \<open>
  The claim as written gives \<open>actual/ceiling - 1\<close> to every row with \<open>actual > ceiling\<close>. On
  the row \<open>floor = 3\<close>, \<open>actual = 2\<close>, \<open>hat = 1\<close> the observation is above the ceiling, yet the
  deviation is \<open>1 - 3/2 = -1/2\<close> and not \<open>2/1 - 1 = 1\<close>.
\<close>

theorem ceiling_formula_counterexample:
  "deviation_scorer [\<lparr>timestamp = 0, mean = Fin 2, floor_col = Fin 3, hat = Fin 1\<rparr>]
       [(0, Fin 2)]
     = [\<lparr>timestamp = 0, mean = Fin 2, floor_col = Fin 3, hat = Fin 1, actual = Fin 2,
         deviation = Some (Fin (- (1 / 2)))\<rparr>]
   \<and> np_gt (Fin 2) (Fin 1)
   \<and> np_sub (np_div (Fin 2) (Fin 1)) (Fin 1) = Fin 1
   \<and> Some (Fin (- (1 / 2))) \<noteq> Some (np_sub (np_div (Fin 2) (Fin 1)) (Fin 1))"
  by (simp add: deviation_scorer_def add_deviation_def join_actual_def merge_inner_def
      deviation_of_def np_sub_def)

text \<open>
  C2. For every row of the table with \<open>floor <= actual <= hat\<close>, the deviation is absent:
  the lambda returns \<open>None\<close>.
\<close>

theorem within_corridor_absent:
  assumes "r \<in> set (deviation_scorer upsampled values)"
    and "np_le (floor_col r) (actual r)" and "np_le (actual r) (hat r)"
  shows "deviation r = None"
proof -
  have "\<not> np_gt (floor_col r) (actual r)" and "\<not> np_gt (actual r) (hat r)"
    using assms(2,3) by (simp_all add: np_le_not_gt)
  then have "deviation_of r = None"
    by (simp add: deviation_of_def)
  with deviation_scorer_rows [OF assms(1)] show ?thesis by simp
qed

theorem within_corridor_absent_witness:
  "\<lparr>timestamp = 7, mean = Fin 10, floor_col = Fin 9, hat = Fin 11, actual = Fin 10,
     deviation = None\<rparr>
     \<in> set (deviation_scorer [\<lparr>timestamp = 7, mean = Fin 10, floor_col = Fin 9, hat = Fin 11\<rparr>]
         [(7, Fin 10)])
   \<and> np_le (Fin 9) (Fin 10) \<and> np_le (Fin 10) (Fin 11)
   \<and> deviation \<lparr>timestamp = 7, mean = Fin 10, floor_col = Fin 9, hat = Fin 11,
       actual = Fin 10, deviation = None\<rparr> = None"
  using within_corridor_absent [of
      "\<lparr>timestamp = 7, mean = Fin 10, floor_col = Fin 9, hat = Fin 11, actual = Fin 10,
        deviation = None\<rparr>"
      "[\<lparr>timestamp = 7, mean = Fin 10, floor_col = Fin 9, hat = Fin 11\<rparr>]"
      "[(7, Fin 10)]"]
  by (simp add: deviation_scorer_def add_deviation_def join_actual_def merge_inner_def
      deviation_of_def)

text \<open>
  C8. For every row of the table with \<open>floor > actual\<close> and \<open>actual = 0\<close>, the floor formula
  is evaluated with the divisor zero: no branch tests the divisor, the stored deviation is
  the outcome of that division, which is not a finite number, and the row is not reported
  as absent.
\<close>

theorem floor_breach_zero_division:
  assumes "r \<in> set (deviation_scorer upsampled values)"
    and "np_gt (floor_col r) (actual r)" and "actual r = Fin 0"
  shows "deviation r = Some (np_add (np_div (np_neg (floor_col r)) (Fin 0)) (Fin 1))
       \<and> \<not> isfinite (np_add (np_div (np_neg (floor_col r)) (Fin 0)) (Fin 1))
       \<and> deviation r \<noteq> None"
proof -
  have d: "deviation r = Some (np_add (np_div (np_neg (floor_col r)) (Fin 0)) (Fin 1))"
    using deviation_scorer_rows [OF assms(1)] assms(2,3) by (simp add: deviation_of_def)
  have "\<not> isfinite (np_add (np_div (np_neg (floor_col r)) (Fin 0)) (Fin 1))"
    using assms(2,3) by (cases "floor_col r") simp_all
  with d show ?thesis by simp
qed

theorem floor_breach_zero_division_witness:
  "\<lparr>timestamp = 3, mean = Fin 5, floor_col = Fin 4, hat = Fin 6, actual = Fin 0,
     deviation = Some NInf\<rparr>
     \<in> set (deviation_scorer [\<lparr>timestamp = 3, mean = Fin 5, floor_col = Fin 4, hat = Fin 6\<rparr>]
         [(3, Fin 0)])
   \<and> np_gt (Fin 4) (Fin 0)
   \<and> np_add (np_div (np_neg (Fin 4)) (Fin 0)) (Fin 1) = NInf
   \<and> \<not> isfinite (np_add (np_div (np_neg (Fin 4)) (Fin 0)) (Fin 1))"
  using floor_breach_zero_division [of
      "\<lparr>timestamp = 3, mean = Fin 5, floor_col = Fin 4, hat = Fin 6, actual = Fin 0,
        deviation = Some NInf\<rparr>"
      "[\<lparr>timestamp = 3, mean = Fin 5, floor_col = Fin 4, hat = Fin 6\<rparr>]"
      "[(3, Fin 0)]"]
  by (simp add: deviation_scorer_def add_deviation_def join_actual_def merge_inner_def
      deviation_of_def)

text \<open>
  C9. For every row of the table where the corridor is crossed, \<open>floor > actual\<close> and
  \<open>actual > hat\<close> at once, the deviation is the floor value \<open>1 - floor/actual\<close>: the floor
  test comes first.
\<close>

theorem crossed_corridor_floor_first:
  assumes "r \<in> set (deviation_scorer upsampled values)"
    and "np_gt (floor_col r) (actual r)" and "np_gt (actual r) (hat r)"
  shows "deviation r = Some (np_sub (Fin 1) (np_div (floor_col r) (actual r)))"
  using deviation_scorer_rows [OF assms(1)] assms(2)
  by (simp add: deviation_of_def floor_breach_formula)

theorem crossed_corridor_floor_first_witness:
  "\<lparr>timestamp = 4, mean = Fin 6, floor_col = Fin 8, hat = Fin 2, actual = Fin 4,
     deviation = Some (Fin (- 1))\<rparr>
     \<in> set (deviation_scorer [\<lparr>timestamp = 4, mean = Fin 6, floor_col = Fin 8, hat = Fin 2\<rparr>]
         [(4, Fin 4)])
   \<and> np_gt (Fin 8) (Fin 4) \<and> np_gt (Fin 4) (Fin 2)
   \<and> Some (Fin (- 1)) = Some (np_sub (Fin 1) (np_div (Fin 8) (Fin 4)))"
  using crossed_corridor_floor_first [of
      "\<lparr>timestamp = 4, mean = Fin 6, floor_col = Fin 8, hat = Fin 2, actual = Fin 4,
        deviation = Some (Fin (- 1))\<rparr>"
      "[\<lparr>timestamp = 4, mean = Fin 6, floor_col = Fin 8, hat = Fin 2\<rparr>]"
      "[(4, Fin 4)]"]
  by (simp add: deviation_scorer_def add_deviation_def join_actual_def merge_inner_def
      deviation_of_def np_sub_def)

section \<open>Joins\<close>

lemma merge_inner_member:
  "(k, a, b) \<in> set (merge_inner left right) \<longleftrightarrow> (k, a) \<in> set left \<and> (k, b) \<in> set right"
proof
  assume "(k, a, b) \<in> set (merge_inner left right)"
  then show "(k, a) \<in> set left \<and> (k, b) \<in> set right"
    by (fastforce simp: merge_inner_def)
next
  assume "(k, a) \<in> set left \<and> (k, b) \<in> set right"
  then have "(k, a) \<in> set left"
    and "(k, a, b) \<in> set (map (\<lambda>(k', b). (k, a, b)) (filter (\<lambda>(k', b). k' = k) right))"
    by force+
  then show "(k, a, b) \<in> set (merge_inner left right)"
    unfolding merge_inner_def set_concat set_map
    by (intro UN_I [of "(\<lambda>(k, a). map (\<lambda>(k', b). (k, a, b)) (filter (\<lambda>(k', b). k' = k) right)) (k, a)"]) auto
qed

lemma merge_inner_keys:
  "fst ` set (merge_inner left right) = fst ` set left \<inter> fst ` set right"
  using merge_inner_member [of _ _ _ left right] by (force simp: image_iff)

lemma join_actual_timestamps:
  "timestamp ` set (join_actual upsampled values)
     = timestamp ` set upsampled \<inter> fst ` set values"
proof -
  have "timestamp ` set (join_actual upsampled values)
          = fst ` set (merge_inner (map (\<lambda>c. (timestamp c, c)) upsampled) values)"
    by (force simp: join_actual_def)
  also have "\<dots> = fst ` set (map (\<lambda>c. (timestamp c, c)) upsampled) \<inter> fst ` set values"
    by (rule merge_inner_keys)
  also have "fst ` set (map (\<lambda>c. (timestamp c, c)) upsampled) = timestamp ` set upsampled"
    by force
  finally show ?thesis .
qed

lemma add_deviation_timestamps:
  "timestamp ` set (add_deviation rows) = timestamp ` set rows"
  by (force simp: add_deviation_def)

text \<open>
  C5. The timestamps of the table produced by the Deviation Scorer are exactly those that
  the upsampled corridor and the observations have in common; in particular they form a
  subset of that intersection: a timestamp without an observation yields no row, and no
  timestamp appears that the two inputs do not both carry.
\<close>

theorem deviation_table_timestamps:
  "timestamp ` set (deviation_scorer upsampled values)
     \<subseteq> timestamp ` set upsampled \<inter> fst ` set values
   \<and> timestamp ` set (deviation_scorer upsampled values)
     = timestamp ` set upsampled \<inter> fst ` set values"
  by (simp add: deviation_scorer_def add_deviation_timestamps join_actual_timestamps)

text \<open>
  The corridor covers the minutes 1, 2 and 3, the observations the minutes 2, 3 and 4: the
  table has the rows of 2 and 3 only.
\<close>

theorem deviation_table_timestamps_witness:
  "map timestamp (deviation_scorer
       [\<lparr>timestamp = 1, mean = Fin 5, floor_col = Fin 4, hat = Fin 6\<rparr>,
        \<lparr>timestamp = 2, mean = Fin 5, floor_col = Fin 4, hat = Fin 6\<rparr>,
        \<lparr>timestamp = 3, mean = Fin 5, floor_col = Fin 4, hat = Fin 6\<rparr>]
       [(2, Fin 5), (3, Fin 7), (4, Fin 5)]) = [2, 3]
   \<and> timestamp ` set (deviation_scorer
       [\<lparr>timestamp = 1, mean = Fin 5, floor_col = Fin 4, hat = Fin 6\<rparr>,
        \<lparr>timestamp = 2, mean = Fin 5, floor_col = Fin 4, hat = Fin 6\<rparr>,
        \<lparr>timestamp = 3, mean = Fin 5, floor_col = Fin 4, hat = Fin 6\<rparr>]
       [(2, Fin 5), (3, Fin 7), (4, Fin 5)]) \<subseteq> {1, 2, 3} \<inter> {2, 3, 4}"
  using deviation_table_timestamps [of
       "[\<lparr>timestamp = 1, mean = Fin 5, floor_col = Fin 4, hat = Fin 6\<rparr>,
         \<lparr>timestamp = 2, mean = Fin 5, floor_col = Fin 4, hat = Fin 6\<rparr>,
         \<lparr>timestamp = 3, mean = Fin 5, floor_col = Fin 4, hat = Fin 6\<rparr>]"
       "[(2, Fin 5), (3, Fin 7), (4, Fin 5)]"]
  by (simp add: deviation_scorer_def add_deviation_def join_actual_def merge_inner_def)

section \<open>Corridor Merger\<close>

lemma select_column_member:
  "(k, v) \<in> set (select_column c forecast) \<longleftrightarrow>
     (\<exists>x\<in>set forecast. k = (f_item_id x, f_timestamp x) \<and> v = c x)"
  by (auto simp: select_column_def)

lemma corridor_merge_member:
  "r \<in> set (corridor_merge forecastMean forecastMin forecastMax) \<longleftrightarrow>
     (\<exists>x\<in>set forecastMean. \<exists>y\<in>set forecastMin. \<exists>z\<in>set forecastMax.
        f_item_id y = f_item_id x \<and> f_timestamp y = f_timestamp x
      \<and> f_item_id z = f_item_id x \<and> f_timestamp z = f_timestamp x
      \<and> r = \<lparr>m_timestamp = f_timestamp x, m_mean = f_mean x, m_q01 = f_q01 y, m_q09 = f_q09 z\<rparr>)"
  (is "?L \<longleftrightarrow> ?R")
proof
  assume ?L
  then obtain item t m lo hi where
    r: "r = \<lparr>m_timestamp = t, m_mean = m, m_q01 = lo, m_q09 = hi\<rparr>" and
    mem: "((item, t), (m, lo), hi) \<in> set (merge_inner
        (merge_inner (select_column f_mean forecastMean) (select_column f_q01 forecastMin))
        (select_column f_q09 forecastMax))"
    by (auto simp: corridor_merge_def Let_def)
  from mem have "((item, t), m) \<in> set (select_column f_mean forecastMean)"
    and "((item, t), lo) \<in> set (select_column f_q01 forecastMin)"
    and "((item, t), hi) \<in> set (select_column f_q09 forecastMax)"
    by (simp_all add: merge_inner_member)
  then obtain x y z where "x \<in> set forecastMean" "y \<in> set forecastMin" "z \<in> set forecastMax"
    and "(item, t) = (f_item_id x, f_timestamp x)" "m = f_mean x"
    and "(item, t) = (f_item_id y, f_timestamp y)" "lo = f_q01 y"
    and "(item, t) = (f_item_id z, f_timestamp z)" "hi = f_q09 z"
    unfolding select_column_member by blast
  with r show ?R by auto
next
  assume ?R
  then obtain x y z where xyz: "x \<in> set forecastMean" "y \<in> set forecastMin" "z \<in> set forecastMax"
    and ky: "f_item_id y = f_item_id x" "f_timestamp y = f_timestamp x"
    and kz: "f_item_id z = f_item_id x" "f_timestamp z = f_timestamp x"
    and r: "r = \<lparr>m_timestamp = f_timestamp x, m_mean = f_mean x, m_q01 = f_q01 y, m_q09 = f_q09 z\<rparr>"
    by blast
  have "((f_item_id x, f_timestamp x), f_mean x) \<in> set (select_column f_mean forecastMean)"
    using xyz(1) by (auto simp: select_column_def)
  moreover have "((f_item_id y, f_timestamp y), f_q01 y) \<in> set (select_column f_q01 forecastMin)"
    using xyz(2) by (auto simp: select_column_def)
  moreover have "((f_item_id z, f_timestamp z), f_q09 z) \<in> set (select_column f_q09 forecastMax)"
    using xyz(3) by (auto simp: select_column_def)
  ultimately have "((f_item_id x, f_timestamp x), (f_mean x, f_q01 y), f_q09 z) \<in> set (merge_inner
        (merge_inner (select_column f_mean forecastMean) (select_column f_q01 forecastMin))
        (select_column f_q09 forecastMax))"
    by (simp add: merge_inner_member ky kz)
  then show ?L
    unfolding corridor_merge_def Let_def set_map r by force
qed

lemma corridor_merge_timestamps:
  assumes "\<forall>x \<in> set forecastMean \<union> set forecastMin \<union> set forecastMax. f_item_id x = item"
  shows "m_timestamp ` set (corridor_merge forecastMean forecastMin forecastMax)
     = f_timestamp ` set forecastMean \<inter> f_timestamp ` set forecastMin \<inter> f_timestamp ` set forecastMax"
proof (intro set_eqI iffI)
  fix t
  assume "t \<in> m_timestamp ` set (corridor_merge forecastMean forecastMin forecastMax)"
  then obtain r where "r \<in> set (corridor_merge forecastMean forecastMin forecastMax)" "t = m_timestamp r"
    by blast
  then obtain x y z where "x \<in> set forecastMean" "y \<in> set forecastMin" "z \<in> set forecastMax"
    "f_timestamp y = f_timestamp x" "f_timestamp z = f_timestamp x" "t = f_timestamp x"
    unfolding corridor_merge_member by auto
  then have "t \<in> f_timestamp ` set forecastMean" "t \<in> f_timestamp ` set forecastMin"
    "t \<in> f_timestamp ` set forecastMax"
    by (metis imageI)+
  then show "t \<in> f_timestamp ` set forecastMean \<inter> f_timestamp ` set forecastMin \<inter> f_timestamp ` set forecastMax"
    by simp
next
  fix t
  assume "t \<in> f_timestamp ` set forecastMean \<inter> f_timestamp ` set forecastMin \<inter> f_timestamp ` set forecastMax"
  then obtain x y z where xyz: "x \<in> set forecastMean" "y \<in> set forecastMin" "z \<in> set forecastMax"
    and t: "f_timestamp x = t" "f_timestamp y = t" "f_timestamp z = t"
    by auto
  with assms have "f_item_id x = item" "f_item_id y = item" "f_item_id z = item" by auto
  with xyz t have "\<lparr>m_timestamp = f_timestamp x, m_mean = f_mean x, m_q01 = f_q01 y, m_q09 = f_q09 z\<rparr>
      \<in> set (corridor_merge forecastMean forecastMin forecastMax)"
    unfolding corridor_merge_member by auto
  then have "m_timestamp \<lparr>m_timestamp = f_timestamp x, m_mean = f_mean x, m_q01 = f_q01 y, m_q09 = f_q09 z\<rparr>
      \<in> m_timestamp ` set (corridor_merge forecastMean forecastMin forecastMax)"
    by (rule imageI)
  with t show "t \<in> m_timestamp ` set (corridor_merge forecastMean forecastMin forecastMax)" by simp
qed

lemma filter_key_distinct:
  "distinct (map fst right) \<Longrightarrow> length (filter (\<lambda>(k', b). k' = k) right) \<le> 1"
  by (induction right) (auto simp: filter_empty_conv image_iff)

lemma merge_inner_Cons:
  "merge_inner ((k, a) # left) right
     = map (\<lambda>(k', b). (k, a, b)) (filter (\<lambda>(k', b). k' = k) right) @ merge_inner left right"
  by (simp add: merge_inner_def)

lemma merge_inner_distinct:
  "distinct (map fst left) \<Longrightarrow> distinct (map fst right) \<Longrightarrow> distinct (map fst (merge_inner left right))"
proof (induction left)
  case Nil
  then show ?case by (simp add: merge_inner_def)
next
  case (Cons p left)
  obtain k a where p: "p = (k, a)" by (cases p)
  let ?m = "map (\<lambda>(k', b). (k, a, b)) (filter (\<lambda>(k', b). k' = k) right)"
  have len: "length ?m \<le> 1" using filter_key_distinct [OF Cons.prems(2), of k] by simp
  have d1: "distinct (map fst ?m)" using len by (cases ?m) (auto simp del: map_eq_conv)
  have keys: "set (map fst ?m) \<subseteq> {k}" by auto
  have "k \<notin> fst ` set left" using Cons.prems(1) p by auto
  then have nk: "k \<notin> set (map fst (merge_inner left right))" by (simp add: merge_inner_keys)
  have disj: "set (map fst ?m) \<inter> set (map fst (merge_inner left right)) = {}"
    using keys nk by blast
  from Cons have "distinct (map fst (merge_inner left right))" by simp
  with d1 disj show ?case unfolding p merge_inner_Cons map_append distinct_append by blast
qed


lemma select_column_keys:
  "map fst (select_column c forecast) = map (\<lambda>r. (f_item_id r, f_timestamp r)) forecast"
  by (simp add: select_column_def)

lemma corridor_merge_distinct:
  assumes item: "\<forall>x \<in> set forecastMean. f_item_id x = item"
    and d: "distinct (map f_timestamp forecastMean)" "distinct (map f_timestamp forecastMin)"
      "distinct (map f_timestamp forecastMax)"
  shows "distinct (map m_timestamp (corridor_merge forecastMean forecastMin forecastMax))"
proof -
  let ?key = "\<lambda>r. (f_item_id r, f_timestamp r)"
  let ?m1 = "merge_inner (select_column f_mean forecastMean) (select_column f_q01 forecastMin)"
  let ?m2 = "merge_inner ?m1 (select_column f_q09 forecastMax)"
  have k: "distinct (map ?key f)" if "distinct (map f_timestamp f)" for f
  proof -
    from that have "distinct (map snd (map ?key f))" by (simp add: comp_def)
    then show ?thesis by (simp only: distinct_map)
  qed
  have "distinct (map fst ?m1)"
    by (intro merge_inner_distinct) (simp_all add: select_column_keys k d)
  then have d2: "distinct (map fst ?m2)"
    by (intro merge_inner_distinct) (simp_all add: select_column_keys k d)
  define K where "K = fst ` set ?m2"
  have "K \<subseteq> fst ` set (select_column f_mean forecastMean)"
    unfolding K_def merge_inner_keys by blast
  then have "K \<subseteq> ?key ` set forecastMean"
    by (simp add: select_column_def image_image)
  then have "fst p = item" if "p \<in> K" for p
    using item that by auto
  then have "inj_on snd K"
    by (intro inj_onI) (metis prod_eqI)
  with d2 have "distinct (map snd (map fst ?m2))"
    unfolding K_def by (simp only: distinct_map set_map)
  moreover have "map m_timestamp (corridor_merge forecastMean forecastMin forecastMax)
      = map snd (map fst ?m2)"
    by (auto simp: corridor_merge_def Let_def)
  ultimately show ?thesis by simp
qed

text \<open>
  C4. The Corridor Merger joins the three forecasts on their index: a row is emitted
  exactly for three rows, one of each forecast, that carry the same index label, with
  \<open>mean\<close> taken from the column \<open>mean\<close> of the mean-series forecast, \<open>0.1\<close> (later \<open>floor\<close>)
  from the 0.1 quantile of the min-series forecast and \<open>0.9\<close> (later \<open>hat\<close>) from the 0.9
  quantile of the max-series forecast. For the single series \<open>single_item\<close> the surviving
  timestamps are exactly those present in all three forecasts, and each of them has one
  row when no forecast repeats a timestamp.
\<close>

theorem corridor_merge_inner_join:
  "(r \<in> set (corridor_merge forecastMean forecastMin forecastMax) \<longleftrightarrow>
      (\<exists>x\<in>set forecastMean. \<exists>y\<in>set forecastMin. \<exists>z\<in>set forecastMax.
          f_item_id y = f_item_id x \<and> f_timestamp y = f_timestamp x
        \<and> f_item_id z = f_item_id x \<and> f_timestamp z = f_timestamp x
        \<and> r = \<lparr>m_timestamp = f_timestamp x, m_mean = f_mean x, m_q01 = f_q01 y,
                 m_q09 = f_q09 z\<rparr>))
   \<and> ((\<forall>x \<in> set forecastMean \<union> set forecastMin \<union> set forecastMax.
          f_item_id x = ''single_item'') \<longrightarrow>
        m_timestamp ` set (corridor_merge forecastMean forecastMin forecastMax)
          = f_timestamp ` set forecastMean \<inter> f_timestamp ` set forecastMin
              \<inter> f_timestamp ` set forecastMax
      \<and> (distinct (map f_timestamp forecastMean) \<and> distinct (map f_timestamp forecastMin)
           \<and> distinct (map f_timestamp forecastMax) \<longrightarrow>
          distinct (map m_timestamp (corridor_merge forecastMean forecastMin forecastMax))))"
proof (intro conjI impI)
  show "r \<in> set (corridor_merge forecastMean forecastMin forecastMax) \<longleftrightarrow>
      (\<exists>x\<in>set forecastMean. \<exists>y\<in>set forecastMin. \<exists>z\<in>set forecastMax.
          f_item_id y = f_item_id x \<and> f_timestamp y = f_timestamp x
        \<and> f_item_id z = f_item_id x \<and> f_timestamp z = f_timestamp x
        \<and> r = \<lparr>m_timestamp = f_timestamp x, m_mean = f_mean x, m_q01 = f_q01 y,
                 m_q09 = f_q09 z\<rparr>)"
    by (rule corridor_merge_member)
next
  assume "\<forall>x \<in> set forecastMean \<union> set forecastMin \<union> set forecastMax.
            f_item_id x = ''single_item''"
  then show "m_timestamp ` set (corridor_merge forecastMean forecastMin forecastMax)
          = f_timestamp ` set forecastMean \<inter> f_timestamp ` set forecastMin
              \<inter> f_timestamp ` set forecastMax"
    by (rule corridor_merge_timestamps)
next
  assume "\<forall>x \<in> set forecastMean \<union> set forecastMin \<union> set forecastMax.
            f_item_id x = ''single_item''"
    and "distinct (map f_timestamp forecastMean) \<and> distinct (map f_timestamp forecastMin)
           \<and> distinct (map f_timestamp forecastMax)"
  then show "distinct (map m_timestamp (corridor_merge forecastMean forecastMin forecastMax))"
    by (intro corridor_merge_distinct [where item = "''single_item''"]) simp_all
qed

text \<open>
  The mean-series forecast covers the buckets 30, 60 and 90, the min-series forecast 60,
  90 and 120, the max-series forecast 90, 60 and 150: the corridor has the buckets 60 and
  90, each with the three columns from the three sources.
\<close>

theorem corridor_merge_inner_join_witness:
  "corridor_merge
     [\<lparr>f_item_id = ''single_item'', f_timestamp = 30, f_mean = Fin 10, f_q01 = Fin 8,
        f_q05 = Fin 10, f_q09 = Fin 12\<rparr>,
      \<lparr>f_item_id = ''single_item'', f_timestamp = 60, f_mean = Fin 11, f_q01 = Fin 9,
        f_q05 = Fin 11, f_q09 = Fin 13\<rparr>,
      \<lparr>f_item_id = ''single_item'', f_timestamp = 90, f_mean = Fin 12, f_q01 = Fin 10,
        f_q05 = Fin 12, f_q09 = Fin 14\<rparr>]
     [\<lparr>f_item_id = ''single_item'', f_timestamp = 60, f_mean = Fin 5, f_q01 = Fin 3,
        f_q05 = Fin 5, f_q09 = Fin 7\<rparr>,
      \<lparr>f_item_id = ''single_item'', f_timestamp = 90, f_mean = Fin 6, f_q01 = Fin 4,
        f_q05 = Fin 6, f_q09 = Fin 8\<rparr>,
      \<lparr>f_item_id = ''single_item'', f_timestamp = 120, f_mean = Fin 7, f_q01 = Fin 5,
        f_q05 = Fin 7, f_q09 = Fin 9\<rparr>]
     [\<lparr>f_item_id = ''single_item'', f_timestamp = 90, f_mean = Fin 20, f_q01 = Fin 18,
        f_q05 = Fin 20, f_q09 = Fin 22\<rparr>,
      \<lparr>f_item_id = ''single_item'', f_timestamp = 60, f_mean = Fin 21, f_q01 = Fin 19,
        f_q05 = Fin 21, f_q09 = Fin 23\<rparr>,
      \<lparr>f_item_id = ''single_item'', f_timestamp = 150, f_mean = Fin 22, f_q01 = Fin 20,
        f_q05 = Fin 22, f_q09 = Fin 24\<rparr>]
   = [\<lparr>m_timestamp = 60, m_mean = Fin 11, m_q01 = Fin 3, m_q09 = Fin 23\<rparr>,
      \<lparr>m_timestamp = 90, m_mean = Fin 12, m_q01 = Fin 4, m_q09 = Fin 22\<rparr>]
   \<and> {30, 60, 90} \<inter> {60, 90, 120} \<inter> {90, 60, 150} = {60, 90 :: int}"
  using corridor_merge_inner_join [of
     "\<lparr>m_timestamp = 60, m_mean = Fin 11, m_q01 = Fin 3, m_q09 = Fin 23\<rparr>"
     "[\<lparr>f_item_id = ''single_item'', f_timestamp = 30, f_mean = Fin 10, f_q01 = Fin 8,
        f_q05 = Fin 10, f_q09 = Fin 12\<rparr>,
      \<lparr>f_item_id = ''single_item'', f_timestamp = 60, f_mean = Fin 11, f_q01 = Fin 9,
        f_q05 = Fin 11, f_q09 = Fin 13\<rparr>,
      \<lparr>f_item_id = ''single_item'', f_timestamp = 90, f_mean = Fin 12, f_q01 = Fin 10,
        f_q05 = Fin 12, f_q09 = Fin 14\<rparr>]"
     "[\<lparr>f_item_id = ''single_item'', f_timestamp = 60, f_mean = Fin 5, f_q01 = Fin 3,
        f_q05 = Fin 5, f_q09 = Fin 7\<rparr>,
      \<lparr>f_item_id = ''single_item'', f_timestamp = 90, f_mean = Fin 6, f_q01 = Fin 4,
        f_q05 = Fin 6, f_q09 = Fin 8\<rparr>,
      \<lparr>f_item_id = ''single_item'', f_timestamp = 120, f_mean = Fin 7, f_q01 = Fin 5,
        f_q05 = Fin 7, f_q09 = Fin 9\<rparr>]"
     "[\<lparr>f_item_id = ''single_item'', f_timestamp = 90, f_mean = Fin 20, f_q01 = Fin 18,
        f_q05 = Fin 20, f_q09 = Fin 22\<rparr>,
      \<lparr>f_item_id = ''single_item'', f_timestamp = 60, f_mean = Fin 21, f_q01 = Fin 19,
        f_q05 = Fin 21, f_q09 = Fin 23\<rparr>,
      \<lparr>f_item_id = ''single_item'', f_timestamp = 150, f_mean = Fin 22, f_q01 = Fin 20,
        f_q05 = Fin 22, f_q09 = Fin 24\<rparr>]"]
  by (simp add: corridor_merge_def select_column_def merge_inner_def)

section \<open>Validation\<close>

lemma validate_rejects:
  assumes "df_empty df \<or> \<not> value_is_numeric df \<or> index_kind df \<noteq> DatetimeIndex"
  shows "\<exists>f. validate df = Some (ValueError f)"
  using assms by (auto simp: validate_def)

text \<open>
  C3 (amended). For every input frame that is empty, or whose \<open>value\<close> column is missing or
  not numeric, or whose index is not a \<open>DatetimeIndex\<close>, the entry point raises a
  \<open>ValueError\<close> before it has made a single library call: no aggregation, no forecast, no
  upsampling. The order of the timestamps is not examined.
\<close>

theorem validation_before_aggregation:
  assumes "lookup h df_ref = Some (RawFrame df)"
    and "df_empty df \<or> \<not> value_is_numeric df \<or> index_kind df \<noteq> DatetimeIndex"
  shows "\<exists>f. get_anomaly_summary lib h df_ref fromTime toTime = ([], Inl (ValueError f))"
proof -
  from validate_rejects [OF assms(2)] obtain f where "validate df = Some (ValueError f)" ..
  with assms(1) show ?thesis by (simp add: get_anomaly_summary_def)
qed

text \<open>
  An empty frame, a frame whose \<open>value\<close> column holds strings, and a frame without a
  \<open>DatetimeIndex\<close>, each as the only object of the store and with a library that would
  answer every call.
\<close>

theorem validation_before_aggregation_witness:
  "df_empty \<lparr>index_kind = DatetimeIndex, index = [], columns = [(''value'', Numeric [])]\<rparr>
   \<and> get_anomaly_summary
       \<lparr>resample_agg = (\<lambda>n a d. d), fit_predict = (\<lambda>c d. Inr []),
        resample_interpolate = (\<lambda>rows. rows)\<rparr>
       [\<lparr>content = RawFrame \<lparr>index_kind = DatetimeIndex, index = [], columns = [(''value'', Numeric [])]\<rparr>, writeable = True\<rparr>]
       0 0 0
     = ([], Inl (ValueError EmptyFrame))
   \<and> \<not> value_is_numeric
       \<lparr>index_kind = DatetimeIndex, index = [1], columns = [(''value'', NonNumeric [''a''])]\<rparr>
   \<and> get_anomaly_summary
       \<lparr>resample_agg = (\<lambda>n a d. d), fit_predict = (\<lambda>c d. Inr []),
        resample_interpolate = (\<lambda>rows. rows)\<rparr>
       [\<lparr>content = RawFrame \<lparr>index_kind = DatetimeIndex, index = [1], columns = [(''value'', NonNumeric [''a''])]\<rparr>, writeable = True\<rparr>]
       0 0 0
     = ([], Inl (ValueError NotNumeric))
   \<and> index_kind \<lparr>index_kind = OtherIndex, index = [1], columns = [(''value'', Numeric [Fin 1])]\<rparr>
       \<noteq> DatetimeIndex
   \<and> get_anomaly_summary
       \<lparr>resample_agg = (\<lambda>n a d. d), fit_predict = (\<lambda>c d. Inr []),
        resample_interpolate = (\<lambda>rows. rows)\<rparr>
       [\<lparr>content = RawFrame \<lparr>index_kind = OtherIndex, index = [1], columns = [(''value'', Numeric [Fin 1])]\<rparr>, writeable = True\<rparr>]
       0 0 0
     = ([], Inl (ValueError NoDatetimeIndex))"
  using validation_before_aggregation [of
      "[\<lparr>content = RawFrame \<lparr>index_kind = DatetimeIndex, index = [], columns = [(''value'', Numeric [])]\<rparr>, writeable = True\<rparr>]"
      0 "\<lparr>index_kind = DatetimeIndex, index = [], columns = [(''value'', Numeric [])]\<rparr>"
      "\<lparr>resample_agg = (\<lambda>n a d. d), fit_predict = (\<lambda>c d. Inr []),
        resample_interpolate = (\<lambda>rows. rows)\<rparr>" 0 0]
  by (simp add: get_anomaly_summary_def lookup_def validate_def required_column_def
      df_empty_def value_is_numeric_def)

text \<open>
  The claim as written also promises a validation error for an index that is not strictly
  increasing. The frame with the timestamps 2, 1 and the values 5, 7 passes all four
  checks. With a predictor that forecasts the one bucket 2 (mean 6, quantiles 4, 6 and 8)
  the run aggregates three times, forecasts three times, upsamples, and returns a result
  whose table has the row of timestamp 2.
\<close>

theorem unordered_index_counterexample:
  "\<not> sorted_wrt (<) [2, 1 :: timestamp]
   \<and> validate \<lparr>index_kind = DatetimeIndex, index = [2, 1], columns = [(''value'', Numeric [Fin 5, Fin 7])]\<rparr> = None
   \<and> get_anomaly_summary
       \<lparr>resample_agg = (\<lambda>n a d. d),
        fit_predict = (\<lambda>c d. Inr [\<lparr>f_item_id = ''single_item'', f_timestamp = 2, f_mean = Fin 6, f_q01 = Fin 4, f_q05 = Fin 6, f_q09 = Fin 8\<rparr>]),
        resample_interpolate = (\<lambda>rows. rows)\<rparr>
       [\<lparr>content = RawFrame \<lparr>index_kind = DatetimeIndex, index = [2, 1], columns = [(''value'', Numeric [Fin 5, Fin 7])]\<rparr>, writeable = True\<rparr>]
       0 2 2
     = ([Resample AggMean, Resample AggMin, Resample AggMax, FitPredict, FitPredict, FitPredict,
         Interpolate],
        Inr (\<lparr>priv_forecast = 1, priv_actual = 2\<rparr>,
          [\<lparr>content = RawFrame \<lparr>index_kind = DatetimeIndex, index = [2, 1], columns = [(''value'', Numeric [Fin 5, Fin 7])]\<rparr>, writeable = True\<rparr>,
           \<lparr>content = ForecastFrame [\<lparr>timestamp = 2, mean = Fin 6, floor_col = Fin 4, hat = Fin 8, actual = Fin 5, deviation = None\<rparr>], writeable = True\<rparr>,
           \<lparr>content = RawFrame \<lparr>index_kind = DatetimeIndex, index = [2, 1], columns = [(''value'', Numeric [Fin 5, Fin 7])]\<rparr>, writeable = True\<rparr>,
           \<lparr>content = NdArray 1, writeable = False\<rparr>,
           \<lparr>content = NdArray 2, writeable = False\<rparr>]))"
  by (simp add: get_anomaly_summary_def lookup_def validate_def required_column_def df_empty_def
      value_is_numeric_def get_minutes_between_dates_def total_seconds_def py_int_def
      generate_forecast_def assemble_def corridor_merge_def select_column_def merge_inner_def
      rename_columns_def deviation_scorer_def join_actual_def add_deviation_def deviation_of_def
      value_column_def alloc_def AnomalyResult_init_def copy_def frame_values_def
      clear_writeable_def Let_def)

section \<open>The construction of the result\<close>

lemma frame_values_frame:
  assumes "lookup h p = Some f" and "is_frame f"
  shows "frame_values h p = Inr (length h, h @ [\<lparr>content = NdArray p, writeable = True\<rparr>])"
  using assms by (cases f) (simp_all add: frame_values_def alloc_def)

lemma lookup_append:
  "lookup h p = Some f \<Longrightarrow> lookup (h @ h2) p = Some f"
  by (simp add: lookup_def nth_append split: if_splits)

lemma lookup_clear_writeable:
  "lookup (clear_writeable h a) p = lookup h p"
  by (cases "a = p") (simp_all add: lookup_def clear_writeable_def)

text \<open>
  The constructor shares the forecast frame with its caller and owns a fresh copy of the
  observations; it changes no object that existed before, and the two arrays it marks
  read-only are new.
\<close>

lemma AnomalyResult_init_ok:
  assumes "lookup h forecast_data = Some f" and "is_frame f"
    and "lookup h actual_data = Some a" and "is_frame a"
  shows "AnomalyResult_init forecast_data actual_data h
           = Inr (\<lparr>priv_forecast = forecast_data, priv_actual = length h\<rparr>,
                  h @ [\<lparr>content = a, writeable = True\<rparr>,
                       \<lparr>content = NdArray forecast_data, writeable = False\<rparr>,
                       \<lparr>content = NdArray (length h), writeable = False\<rparr>])"
proof -
  let ?h1 = "h @ [\<lparr>content = a, writeable = True\<rparr>]"
  let ?h2 = "?h1 @ [\<lparr>content = NdArray forecast_data, writeable = True\<rparr>]"
  let ?h2' = "?h1 @ [\<lparr>content = NdArray forecast_data, writeable = False\<rparr>]"
  let ?h3 = "?h2' @ [\<lparr>content = NdArray (length h), writeable = True\<rparr>]"
  have c: "copy h actual_data = Inr (length h, ?h1)"
    using assms(3) by (simp add: copy_def alloc_def)
  have "lookup ?h1 forecast_data = Some f"
    using assms(1) by (rule lookup_append)
  then have v1: "frame_values ?h1 forecast_data = Inr (Suc (length h), ?h2)"
    using assms(2) by (simp add: frame_values_frame)
  have cl1: "clear_writeable ?h2 (Suc (length h)) = ?h2'"
    by (simp add: clear_writeable_def nth_append list_update_append)
  have "lookup ?h2' (length h) = Some a"
    by (simp add: lookup_def nth_append)
  then have v2: "frame_values ?h2' (length h) = Inr (Suc (Suc (length h)), ?h3)"
    using assms(4) by (simp add: frame_values_frame)
  have cl2: "clear_writeable ?h3 (Suc (Suc (length h)))
      = ?h2' @ [\<lparr>content = NdArray (length h), writeable = False\<rparr>]"
    by (simp add: clear_writeable_def nth_append list_update_append)
  show ?thesis
    unfolding AnomalyResult_init_def c sum.case prod.case v1 cl1 v2 cl2 by simp
qed

lemma add_deviation_Nil: "add_deviation [] = []"
  by (simp add: add_deviation_def)

lemma assemble_eq:
  assumes "lookup h df_ref = Some (RawFrame d)"
    and "corridor_merge forecastMean forecastMin forecastMax \<noteq> []"
  shows "assemble lib h df_ref df forecastMean forecastMin forecastMax
     = Inr (\<lparr>priv_forecast = length h, priv_actual = Suc (length h)\<rparr>,
            h @ [\<lparr>content = ForecastFrame (deviation_scorer
                   (rename_columns (resample_interpolate lib
                      (corridor_merge forecastMean forecastMin forecastMax)))
                   (value_column df)), writeable = True\<rparr>,
                 \<lparr>content = RawFrame d, writeable = True\<rparr>,
                 \<lparr>content = NdArray (length h), writeable = False\<rparr>,
                 \<lparr>content = NdArray (Suc (length h)), writeable = False\<rparr>])"
proof -
  let ?t = "ForecastFrame (deviation_scorer
                   (rename_columns (resample_interpolate lib
                      (corridor_merge forecastMean forecastMin forecastMax)))
                   (value_column df))"
  let ?h = "h @ [\<lparr>content = ?t, writeable = True\<rparr>]"
  have 1: "lookup ?h (length h) = Some ?t"
    by (simp add: lookup_def)
  have 2: "lookup ?h df_ref = Some (RawFrame d)"
    using assms(1) by (rule lookup_append)
  have "AnomalyResult_init (length h) df_ref ?h
      = Inr (\<lparr>priv_forecast = length h, priv_actual = length ?h\<rparr>,
             ?h @ [\<lparr>content = RawFrame d, writeable = True\<rparr>,
                   \<lparr>content = NdArray (length h), writeable = False\<rparr>,
                   \<lparr>content = NdArray (length ?h), writeable = False\<rparr>])"
    by (rule AnomalyResult_init_ok [OF 1 _ 2]) simp_all
  then show ?thesis
    using assms(2) unfolding assemble_def Let_def alloc_def prod.case by simp
qed

text \<open>
  C6 (amended). When the corridor has rows and the join of the Deviation Scorer yields no
  row, the stages from the merger on raise nothing: the result is constructed, its
  forecast table is the empty table, and its observations are a copy of the caller's frame.
\<close>

theorem empty_scorer_join_propagates:
  assumes "lookup h df_ref = Some (RawFrame df)"
    and "corridor_merge forecastMean forecastMin forecastMax \<noteq> []"
    and "join_actual (rename_columns (resample_interpolate lib
            (corridor_merge forecastMean forecastMin forecastMax))) (value_column df) = []"
  shows "\<exists>res h'. assemble lib h df_ref df forecastMean forecastMin forecastMax = Inr (res, h')
           \<and> lookup h' (priv_forecast res) = Some (ForecastFrame [])
           \<and> lookup h' (priv_actual res) = Some (RawFrame df)"
proof -
  have "deviation_scorer (rename_columns (resample_interpolate lib
            (corridor_merge forecastMean forecastMin forecastMax))) (value_column df) = []"
    using assms(3) by (simp add: deviation_scorer_def add_deviation_Nil)
  then show ?thesis
    by (simp add: assemble_eq [OF assms(1,2)] lookup_def nth_append)
qed

text \<open>
  The three forecasts share the bucket 60, the observations are at 30 only: the corridor
  has one row and the second join none.
\<close>

theorem empty_scorer_join_propagates_witness:
  "corridor_merge
     [\<lparr>f_item_id = ''single_item'', f_timestamp = 60, f_mean = Fin 10, f_q01 = Fin 8, f_q05 = Fin 10, f_q09 = Fin 12\<rparr>]
     [\<lparr>f_item_id = ''single_item'', f_timestamp = 60, f_mean = Fin 5, f_q01 = Fin 3, f_q05 = Fin 5, f_q09 = Fin 7\<rparr>]
     [\<lparr>f_item_id = ''single_item'', f_timestamp = 60, f_mean = Fin 20, f_q01 = Fin 18, f_q05 = Fin 20, f_q09 = Fin 22\<rparr>]
     = [\<lparr>m_timestamp = 60, m_mean = Fin 10, m_q01 = Fin 3, m_q09 = Fin 22\<rparr>]
   \<and> join_actual
       [\<lparr>timestamp = 60, mean = Fin 10, floor_col = Fin 3, hat = Fin 22\<rparr>]
       (value_column \<lparr>index_kind = DatetimeIndex, index = [30], columns = [(''value'', Numeric [Fin 1])]\<rparr>) = []
   \<and> assemble
       \<lparr>resample_agg = (\<lambda>n a d. d), fit_predict = (\<lambda>c d. Inr []),
        resample_interpolate = (\<lambda>rows. rows)\<rparr>
       [\<lparr>content = RawFrame \<lparr>index_kind = DatetimeIndex, index = [30], columns = [(''value'', Numeric [Fin 1])]\<rparr>, writeable = True\<rparr>]
       0
       \<lparr>index_kind = DatetimeIndex, index = [30], columns = [(''value'', Numeric [Fin 1])]\<rparr>
       [\<lparr>f_item_id = ''single_item'', f_timestamp = 60, f_mean = Fin 10, f_q01 = Fin 8, f_q05 = Fin 10, f_q09 = Fin 12\<rparr>]
       [\<lparr>f_item_id = ''single_item'', f_timestamp = 60, f_mean = Fin 5, f_q01 = Fin 3, f_q05 = Fin 5, f_q09 = Fin 7\<rparr>]
       [\<lparr>f_item_id = ''single_item'', f_timestamp = 60, f_mean = Fin 20, f_q01 = Fin 18, f_q05 = Fin 20, f_q09 = Fin 22\<rparr>]
     = Inr (\<lparr>priv_forecast = 1, priv_actual = 2\<rparr>,
         [\<lparr>content = RawFrame \<lparr>index_kind = DatetimeIndex, index = [30], columns = [(''value'', Numeric [Fin 1])]\<rparr>, writeable = True\<rparr>,
          \<lparr>content = ForecastFrame [], writeable = True\<rparr>,
          \<lparr>content = RawFrame \<lparr>index_kind = DatetimeIndex, index = [30], columns = [(''value'', Numeric [Fin 1])]\<rparr>, writeable = True\<rparr>,
          \<lparr>content = NdArray 1, writeable = False\<rparr>,
          \<lparr>content = NdArray 2, writeable = False\<rparr>])"
  using empty_scorer_join_propagates [of
       "[\<lparr>content = RawFrame \<lparr>index_kind = DatetimeIndex, index = [30], columns = [(''value'', Numeric [Fin 1])]\<rparr>, writeable = True\<rparr>]"
       0
       "\<lparr>index_kind = DatetimeIndex, index = [30], columns = [(''value'', Numeric [Fin 1])]\<rparr>"
       "[\<lparr>f_item_id = ''single_item'', f_timestamp = 60, f_mean = Fin 10, f_q01 = Fin 8, f_q05 = Fin 10, f_q09 = Fin 12\<rparr>]"
       "[\<lparr>f_item_id = ''single_item'', f_timestamp = 60, f_mean = Fin 5, f_q01 = Fin 3, f_q05 = Fin 5, f_q09 = Fin 7\<rparr>]"
       "[\<lparr>f_item_id = ''single_item'', f_timestamp = 60, f_mean = Fin 20, f_q01 = Fin 18, f_q05 = Fin 20, f_q09 = Fin 22\<rparr>]"
       "\<lparr>resample_agg = (\<lambda>n a d. d), fit_predict = (\<lambda>c d. Inr []),
        resample_interpolate = (\<lambda>rows. rows)\<rparr>"]
  by (simp add: assemble_def corridor_merge_def select_column_def merge_inner_def
      rename_columns_def deviation_scorer_def join_actual_def add_deviation_def value_column_def
      alloc_def AnomalyResult_init_def copy_def frame_values_def clear_writeable_def lookup_def
      Let_def)

text \<open>
  The claim as written promises the same for an empty corridor. The three forecasts below
  share no bucket (30, 60 and 90), the corridor is empty, and the merge with the
  observations raises: no result is constructed.
\<close>

theorem empty_corridor_counterexample:
  "corridor_merge
     [\<lparr>f_item_id = ''single_item'', f_timestamp = 30, f_mean = Fin 10, f_q01 = Fin 8, f_q05 = Fin 10, f_q09 = Fin 12\<rparr>]
     [\<lparr>f_item_id = ''single_item'', f_timestamp = 60, f_mean = Fin 5, f_q01 = Fin 3, f_q05 = Fin 5, f_q09 = Fin 7\<rparr>]
     [\<lparr>f_item_id = ''single_item'', f_timestamp = 90, f_mean = Fin 20, f_q01 = Fin 18, f_q05 = Fin 20, f_q09 = Fin 22\<rparr>] = []
   \<and> assemble
       \<lparr>resample_agg = (\<lambda>n a d. d), fit_predict = (\<lambda>c d. Inr []),
        resample_interpolate = (\<lambda>rows. rows)\<rparr>
       [\<lparr>content = RawFrame \<lparr>index_kind = DatetimeIndex, index = [30], columns = [(''value'', Numeric [Fin 1])]\<rparr>, writeable = True\<rparr>]
       0
       \<lparr>index_kind = DatetimeIndex, index = [30], columns = [(''value'', Numeric [Fin 1])]\<rparr>
       [\<lparr>f_item_id = ''single_item'', f_timestamp = 30, f_mean = Fin 10, f_q01 = Fin 8, f_q05 = Fin 10, f_q09 = Fin 12\<rparr>]
       [\<lparr>f_item_id = ''single_item'', f_timestamp = 60, f_mean = Fin 5, f_q01 = Fin 3, f_q05 = Fin 5, f_q09 = Fin 7\<rparr>]
       [\<lparr>f_item_id = ''single_item'', f_timestamp = 90, f_mean = Fin 20, f_q01 = Fin 18, f_q05 = Fin 20, f_q09 = Fin 22\<rparr>]
     = Inl JoinValueError"
  by (simp add: assemble_def corridor_merge_def select_column_def merge_inner_def)

text \<open>
  C10. The constructor copies \<open>actual_data\<close> and stores \<open>forecast_data\<close> as it is, so the
  caller's forecast frame and the field \<open>_forecast\<close> are one object. The claim adds that the
  flag assignments make that object read-only. Evaluated on a store with a one-row
  forecast table (object 0) and a one-row frame of observations (object 1), both
  writeable: the field \<open>_forecast\<close> is object 0, the field \<open>_actual\<close> is the new object 2, the
  flag is cleared on the two new arrays 3 and 4, and the objects 0, 1 and 2 are writeable
  as before.
\<close>

theorem constructor_leaves_frames_writeable:
  "AnomalyResult_init 0 1
     [\<lparr>content = ForecastFrame [\<lparr>timestamp = 1, mean = Fin 5, floor_col = Fin 4, hat = Fin 6, actual = Fin 5, deviation = None\<rparr>], writeable = True\<rparr>,
      \<lparr>content = RawFrame \<lparr>index_kind = DatetimeIndex, index = [1], columns = [(''value'', Numeric [Fin 5])]\<rparr>, writeable = True\<rparr>]
     = Inr (\<lparr>priv_forecast = 0, priv_actual = 2\<rparr>,
        [\<lparr>content = ForecastFrame [\<lparr>timestamp = 1, mean = Fin 5, floor_col = Fin 4, hat = Fin 6, actual = Fin 5, deviation = None\<rparr>], writeable = True\<rparr>,
         \<lparr>content = RawFrame \<lparr>index_kind = DatetimeIndex, index = [1], columns = [(''value'', Numeric [Fin 5])]\<rparr>, writeable = True\<rparr>,
         \<lparr>content = RawFrame \<lparr>index_kind = DatetimeIndex, index = [1], columns = [(''value'', Numeric [Fin 5])]\<rparr>, writeable = True\<rparr>,
         \<lparr>content = NdArray 0, writeable = False\<rparr>,
         \<lparr>content = NdArray 2, writeable = False\<rparr>])"
  by (simp add: AnomalyResult_init_def copy_def frame_values_def clear_writeable_def alloc_def
      lookup_def)

section \<open>Accessors of the result\<close>

text \<open>
  C7. For every result whose two fields refer to frames of the store, a call of the
  accessor \<open>forecast\<close> (and likewise \<open>actual\<close>) returns a new object that holds the data of
  the field and is neither of the two internal frames; whatever is then written into the
  returned object, both internal frames are as before and the next call of the same
  accessor returns the same data again, in yet another object.
\<close>

theorem accessors_return_copies:
  assumes "lookup h (priv_forecast self) = Some f" and "lookup h (priv_actual self) = Some a"
  shows "(\<exists>p h1. AnomalyResult_forecast self h = Inr (p, h1)
            \<and> lookup h1 p = Some f
            \<and> p \<noteq> priv_forecast self \<and> p \<noteq> priv_actual self
            \<and> (\<forall>v. lookup (h1[p := v]) (priv_forecast self) = Some f
                   \<and> lookup (h1[p := v]) (priv_actual self) = Some a
                   \<and> (\<exists>q h2. AnomalyResult_forecast self (h1[p := v]) = Inr (q, h2)
                         \<and> lookup h2 q = Some f \<and> q \<noteq> p)))
       \<and> (\<exists>p h1. AnomalyResult_actual self h = Inr (p, h1)
            \<and> lookup h1 p = Some a
            \<and> p \<noteq> priv_forecast self \<and> p \<noteq> priv_actual self
            \<and> (\<forall>v. lookup (h1[p := v]) (priv_forecast self) = Some f
                   \<and> lookup (h1[p := v]) (priv_actual self) = Some a
                   \<and> (\<exists>q h2. AnomalyResult_actual self (h1[p := v]) = Inr (q, h2)
                         \<and> lookup h2 q = Some a \<and> q \<noteq> p)))"
proof -
  from assms have lt: "priv_forecast self < length h" "priv_actual self < length h"
    and v: "content (h ! priv_forecast self) = f" "content (h ! priv_actual self) = a"
    by (simp_all add: lookup_def split: if_splits)
  show ?thesis
    using lt v
    by (simp add: AnomalyResult_forecast_def AnomalyResult_actual_def copy_def alloc_def
        lookup_def nth_append nth_list_update)
qed

text \<open>
  A result over a one-row forecast table and a one-row frame of observations. The first
  call of \<open>forecast\<close> returns object 2; after that object has been emptied, the second call
  still returns the one-row table, as object 3.
\<close>

theorem accessors_return_copies_witness:
  "lookup
     [\<lparr>content = ForecastFrame [\<lparr>timestamp = 1, mean = Fin 5, floor_col = Fin 4, hat = Fin 6, actual = Fin 5, deviation = None\<rparr>], writeable = True\<rparr>,
      \<lparr>content = RawFrame \<lparr>index_kind = DatetimeIndex, index = [1], columns = [(''value'', Numeric [Fin 5])]\<rparr>, writeable = True\<rparr>]
     (priv_forecast \<lparr>priv_forecast = 0, priv_actual = 1\<rparr>)
     = Some (ForecastFrame [\<lparr>timestamp = 1, mean = Fin 5, floor_col = Fin 4, hat = Fin 6, actual = Fin 5, deviation = None\<rparr>])
   \<and> AnomalyResult_forecast \<lparr>priv_forecast = 0, priv_actual = 1\<rparr>
     [\<lparr>content = ForecastFrame [\<lparr>timestamp = 1, mean = Fin 5, floor_col = Fin 4, hat = Fin 6, actual = Fin 5, deviation = None\<rparr>], writeable = True\<rparr>,
      \<lparr>content = RawFrame \<lparr>index_kind = DatetimeIndex, index = [1], columns = [(''value'', Numeric [Fin 5])]\<rparr>, writeable = True\<rparr>]
     = Inr (2,
        [\<lparr>content = ForecastFrame [\<lparr>timestamp = 1, mean = Fin 5, floor_col = Fin 4, hat = Fin 6, actual = Fin 5, deviation = None\<rparr>], writeable = True\<rparr>,
         \<lparr>content = RawFrame \<lparr>index_kind = DatetimeIndex, index = [1], columns = [(''value'', Numeric [Fin 5])]\<rparr>, writeable = True\<rparr>,
         \<lparr>content = ForecastFrame [\<lparr>timestamp = 1, mean = Fin 5, floor_col = Fin 4, hat = Fin 6, actual = Fin 5, deviation = None\<rparr>], writeable = True\<rparr>])
   \<and> AnomalyResult_forecast \<lparr>priv_forecast = 0, priv_actual = 1\<rparr>
     ([\<lparr>content = ForecastFrame [\<lparr>timestamp = 1, mean = Fin 5, floor_col = Fin 4, hat = Fin 6, actual = Fin 5, deviation = None\<rparr>], writeable = True\<rparr>,
       \<lparr>content = RawFrame \<lparr>index_kind = DatetimeIndex, index = [1], columns = [(''value'', Numeric [Fin 5])]\<rparr>, writeable = True\<rparr>,
       \<lparr>content = ForecastFrame [\<lparr>timestamp = 1, mean = Fin 5, floor_col = Fin 4, hat = Fin 6, actual = Fin 5, deviation = None\<rparr>], writeable = True\<rparr>]
        [2 := \<lparr>content = ForecastFrame [], writeable = True\<rparr>])
     = Inr (3,
        [\<lparr>content = ForecastFrame [\<lparr>timestamp = 1, mean = Fin 5, floor_col = Fin 4, hat = Fin 6, actual = Fin 5, deviation = None\<rparr>], writeable = True\<rparr>,
         \<lparr>content = RawFrame \<lparr>index_kind = DatetimeIndex, index = [1], columns = [(''value'', Numeric [Fin 5])]\<rparr>, writeable = True\<rparr>,
         \<lparr>content = ForecastFrame [], writeable = True\<rparr>,
         \<lparr>content = ForecastFrame [\<lparr>timestamp = 1, mean = Fin 5, floor_col = Fin 4, hat = Fin 6, actual = Fin 5, deviation = None\<rparr>], writeable = True\<rparr>])"
  using accessors_return_copies [of
     "[\<lparr>content = ForecastFrame [\<lparr>timestamp = 1, mean = Fin 5, floor_col = Fin 4, hat = Fin 6, actual = Fin 5, deviation = None\<rparr>], writeable = True\<rparr>,
      \<lparr>content = RawFrame \<lparr>index_kind = DatetimeIndex, index = [1], columns = [(''value'', Numeric [Fin 5])]\<rparr>, writeable = True\<rparr>]"
     "\<lparr>priv_forecast = 0, priv_actual = 1\<rparr>"
     "ForecastFrame [\<lparr>timestamp = 1, mean = Fin 5, floor_col = Fin 4, hat = Fin 6, actual = Fin 5, deviation = None\<rparr>]"
     "RawFrame \<lparr>index_kind = DatetimeIndex, index = [1], columns = [(''value'', Numeric [Fin 5])]\<rparr>"]
  by (simp add: AnomalyResult_forecast_def copy_def alloc_def lookup_def)

end
